theory Spec2Isabelle
  imports Main
begin

section \<open>Browser storage and the data of the HTTP client\<close>

text \<open>
  The browser's \<^verbatim>\<open>localStorage\<close> is a dictionary from keys to strings;
  \<^verbatim>\<open>getItem\<close> answers \<^verbatim>\<open>null\<close> (here \<open>None\<close>) for a key that is not stored.
\<close>

type_synonym storage = "string \<rightharpoonup> string"

definition getItem :: "storage \<Rightarrow> string \<Rightarrow> string option" where
  "getItem ls k = ls k"

definition setItem :: "storage \<Rightarrow> string \<Rightarrow> string \<Rightarrow> storage" where
  "setItem ls k v = ls(k \<mapsto> v)"

definition removeItem :: "storage \<Rightarrow> string \<Rightarrow> storage" where
  "removeItem ls k = ls(k := None)"

text \<open>
  Modelled from the spec: the type of the user profile is declared in the authentication
  context (context/AuthContext), which is missing. The fields are the ones the
  specification lists (\<^verbatim>\<open>{ id, fullName, email, role, status }\<close>). The role is kept
  a string: the components compare it with the literals \<^verbatim>\<open>'ADMIN'\<close> and
  \<^verbatim>\<open>'STAFF'\<close>, and what the server sends is not checked.
\<close>

record User =
  user_id :: string
  fullName :: string
  user_email :: string
  role :: string
  user_status :: string

datatype http_method = GET | POST | PATCH | DELETE

text \<open>The request configuration an interceptor receives: what the caller gave, merged with
  the defaults of the client instance.\<close>

record config =
  baseURL :: string
  url :: string
  request_method :: http_method
  headers :: "string \<rightharpoonup> string"
  payload :: "(string \<times> string) list option"

text \<open>
  What the modelled code reads of a response body: the optional \<^verbatim>\<open>message\<close> of an
  error body, and the parts of the login envelope \<^verbatim>\<open>{ token, data: { user } }\<close>.
  The body is untyped in the code, so each part may be missing: \<open>body_token\<close> is the
  body's \<^verbatim>\<open>token\<close>, \<open>None\<close> when undefined; \<open>body_data\<close> is \<open>None\<close> for a body
  without a \<^verbatim>\<open>data\<close> object, and otherwise holds the \<^verbatim>\<open>user\<close> of that object,
  itself \<open>None\<close> when undefined.
\<close>

record response_data =
  message :: "string option"
  body_token :: "string option"
  body_data :: "User option option"

record response =
  status :: nat
  data :: "response_data option"

text \<open>The error object a rejected request carries; \<^verbatim>\<open>error.response\<close> is undefined
  when no response arrived at all.\<close>

record axios_error =
  response :: "response option"

text \<open>What the transport produces for a request: a reply of the server, or nothing.\<close>

datatype outcome = NetworkError | Reply response

text \<open>
  The client library settles a reply by its status: with the default
  \<^verbatim>\<open>validateStatus\<close> (the instance is created with a \<^verbatim>\<open>baseURL\<close> only) a status
  from 200 to 299 fulfils the promise, every other status and a missing reply reject it.
\<close>

definition settle :: "outcome \<Rightarrow> axios_error + response" where
  "settle out =
     (case out of
        NetworkError \<Rightarrow> Inl \<lparr>response = None\<rparr>
      | Reply r \<Rightarrow>
          if 200 \<le> status r \<and> status r < 300 then Inr r
          else Inl \<lparr>response = Some r\<rparr>)"

section \<open>The state the application acts on\<close>

datatype toast = ToastSuccess string | ToastError string

text \<open>
  \<open>localStorage\<close> is the durable store; \<open>href\<close> the path of \<^verbatim>\<open>window.location\<close>;
  \<open>document_loads\<close> counts the full navigations (an assignment to
  \<^verbatim>\<open>window.location.href\<close> loads a document, the router's \<^verbatim>\<open>navigate\<close> does not);
  \<open>mem_token\<close> and \<open>mem_user\<close> are the reactive state of the authentication context;
  \<open>toasts\<close> are the notifications shown and \<open>console\<close> the lines logged.
\<close>

record world =
  localStorage :: storage
  href :: string
  document_loads :: nat
  mem_token :: "string option"
  mem_user :: "User option"
  toasts :: "toast list"
  console :: "string list"

definition init :: world where
  "init = \<lparr>localStorage = Map.empty, href = ''/'', document_loads = 0,
            mem_token = None, mem_user = None, toasts = [], console = []\<rparr>"

section \<open>The API client (services/api.ts)\<close>

text \<open>
  \<^verbatim>\<open>
  api.interceptors.request.use((config) => {
    const token = localStorage.getItem('token');
    if (token) {
      config.headers.Authorization = `Bearer ${token}`;
    }
    return config;
  });
  \<close>
  A string is truthy when it is not empty, and \<^verbatim>\<open>null\<close> is not. (The sources hold
  several revisions of this file; the one modelled is the one with both interceptors, and
  the others differ from it in the base address only, or lack the response interceptor.)
\<close>

definition request_interceptor :: "world \<Rightarrow> config \<Rightarrow> config" where
  "request_interceptor w cfg =
     (case getItem (localStorage w) ''token'' of
        None \<Rightarrow> cfg
      | Some token \<Rightarrow>
          if token \<noteq> [] then cfg\<lparr>headers := (headers cfg)(''Authorization'' \<mapsto> ''Bearer '' @ token)\<rparr>
          else cfg)"

text \<open>
  \<^verbatim>\<open>
  api.interceptors.response.use(
    (response) => response,
    (error) => {
      if (error.response && error.response.status === 401) {
        localStorage.removeItem('token');
        localStorage.removeItem('user');
        window.location.href = '/login';
      }
      return Promise.reject(error);
    }
  );
  \<close>
  Both handlers return the state after them and the settled promise: \<open>Inr\<close> a response,
  \<open>Inl\<close> the rejection.
\<close>

definition response_fulfilled :: "world \<Rightarrow> response \<Rightarrow> world \<times> (axios_error + response)" where
  "response_fulfilled w r = (w, Inr r)"

definition unauthorized :: "axios_error \<Rightarrow> bool" where
  "unauthorized e = (case response e of None \<Rightarrow> False | Some r \<Rightarrow> status r = 401)"

definition response_rejected :: "world \<Rightarrow> axios_error \<Rightarrow> world \<times> (axios_error + response)" where
  "response_rejected w e =
     (if unauthorized e
      then (w\<lparr>localStorage := removeItem (removeItem (localStorage w) ''token'') ''user'',
              href := ''/login'',
              document_loads := Suc (document_loads w)\<rparr>, Inl e)
      else (w, Inl e))"

text \<open>One request through the client: the request interceptor, the transport (the
  environment, a function of the request sent), then the response interceptor.\<close>

definition api_request :: "world \<Rightarrow> config \<Rightarrow> (config \<Rightarrow> outcome) \<Rightarrow> world \<times> (axios_error + response)" where
  "api_request w cfg server =
     (case settle (server (request_interceptor w cfg)) of
        Inr r \<Rightarrow> response_fulfilled w r
      | Inl e \<Rightarrow> response_rejected w e)"

definition api_baseURL :: string where
  "api_baseURL = ''https://prop-mgt-backend-api-production.up.railway.app/api/v1''"

text \<open>
  The configuration of a call \<^verbatim>\<open>api.get(url)\<close>, \<^verbatim>\<open>api.post(url, data)\<close>,
  \<^verbatim>\<open>api.patch(url, data)\<close> or \<^verbatim>\<open>api.delete(url)\<close>. The only header a call of the
  application gives is the \<^verbatim>\<open>Content-Type\<close> of the two multipart uploads
  (\<^verbatim>\<open>{ headers: { 'Content-Type': 'multipart/form-data' } }\<close>); the library's own
  default headers (\<^verbatim>\<open>Accept\<close> and the like) are left out.
\<close>

definition call_config :: "http_method \<Rightarrow> string \<Rightarrow> (string \<times> string) list option \<Rightarrow> string option \<Rightarrow> config" where
  "call_config m path body content_type =
     \<lparr>baseURL = api_baseURL, url = path, request_method = m,
      headers = (case content_type of None \<Rightarrow> Map.empty | Some c \<Rightarrow> [''Content-Type'' \<mapsto> c]),
      payload = body\<rparr>"

definition api_post :: "world \<Rightarrow> string \<Rightarrow> (string \<times> string) list \<Rightarrow> (config \<Rightarrow> outcome)
    \<Rightarrow> world \<times> (axios_error + response)" where
  "api_post w path body server = api_request w (call_config POST path (Some body) None) server"

section \<open>The authentication context\<close>

text \<open>
  The value \<^verbatim>\<open>useAuth()\<close> hands to a component. The context's source is not among
  the files; the components below read \<^verbatim>\<open>user\<close> and \<^verbatim>\<open>isAuthenticated\<close> of it,
  and they are verified for every such value.
\<close>

record AuthContextType =
  user :: "User option"
  isAuthenticated :: bool

text \<open>What the store keeps for a value handed to \<^verbatim>\<open>setItem\<close>: the browser turns it
  into a string, \<^verbatim>\<open>undefined\<close> into \<^verbatim>\<open>'undefined'\<close>.\<close>

definition stored_string :: "('a \<Rightarrow> string) \<Rightarrow> 'a option \<Rightarrow> string" where
  "stored_string f v = (case v of None \<Rightarrow> ''undefined'' | Some x \<Rightarrow> f x)"

definition login :: "(User \<Rightarrow> string) \<Rightarrow> string option \<Rightarrow> User option \<Rightarrow> world \<Rightarrow> world" where
  \<comment> \<open>Modelled from the spec: the authentication context (context/AuthContext) is missing.
     \<^verbatim>\<open>login(token, user)\<close> "stores credentials via the Session Store, updates in-memory
     reactive state"; \<^verbatim>\<open>save(token, user)\<close> "writes both values to durable client-side
     storage. No validation of token shape is performed". The two arguments are taken as
     the caller passes them, \<^verbatim>\<open>undefined\<close> (\<open>None\<close>) included. The serialisation of
     the profile is the parameter \<open>stringify\<close>.\<close>
  "login stringify tok u w =
     w\<lparr>localStorage :=
         setItem (setItem (localStorage w) ''token'' (stored_string (\<lambda>t. t) tok))
           ''user'' (stored_string stringify u),
       mem_token := tok,
       mem_user := u\<rparr>"

definition logout :: "world \<Rightarrow> world" where
  \<comment> \<open>Modelled from the spec: the authentication context is missing. \<^verbatim>\<open>logout()\<close>
     "clears the Session Store and resets in-memory state; does not itself navigate";
     \<^verbatim>\<open>clear()\<close> "removes both persisted values".\<close>
  "logout w =
     w\<lparr>localStorage := removeItem (removeItem (localStorage w) ''token'') ''user'',
       mem_token := None,
       mem_user := None\<rparr>"

definition useAuth :: "world \<Rightarrow> AuthContextType" where
  \<comment> \<open>Modelled from the spec: the authentication context is missing. \<^verbatim>\<open>isAuthenticated\<close>
     is the "derived boolean, true iff a token is currently held"; \<^verbatim>\<open>user\<close> is the
     current profile, \<^verbatim>\<open>null\<close> when logged out.\<close>
  "useAuth w = \<lparr>user = mem_user w, isAuthenticated = (mem_token w \<noteq> None)\<rparr>"

section \<open>The login screen (pages/Login.tsx)\<close>

record LoginFormData =
  email :: string
  password :: string

definition toast_success :: "string \<Rightarrow> world \<Rightarrow> world" where
  "toast_success msg w = w\<lparr>toasts := toasts w @ [ToastSuccess msg]\<rparr>"

definition toast_error :: "string \<Rightarrow> world \<Rightarrow> world" where
  "toast_error msg w = w\<lparr>toasts := toasts w @ [ToastError msg]\<rparr>"

definition console_error :: "string \<Rightarrow> world \<Rightarrow> world" where
  "console_error line w = w\<lparr>console := console w @ [line]\<rparr>"

text \<open>The router's \<^verbatim>\<open>navigate(path)\<close>: the path changes, no document is loaded.\<close>

definition navigate :: "string \<Rightarrow> world \<Rightarrow> world" where
  "navigate path w = w\<lparr>href := path\<rparr>"

text \<open>What the \<^verbatim>\<open>catch\<close> block of \<^verbatim>\<open>onSubmit\<close> can receive: the rejection of the
  request, or the \<^verbatim>\<open>TypeError\<close> of destructuring a body without a \<^verbatim>\<open>data\<close>
  object.\<close>

datatype caught = AxiosError axios_error | TypeError

text \<open>\<^verbatim>\<open>error.response?.data?.message\<close>\<close>

definition response_message :: "caught \<Rightarrow> string option" where
  "response_message c =
     (case c of
        TypeError \<Rightarrow> None
      | AxiosError e \<Rightarrow>
          (case response e of
             None \<Rightarrow> None
           | Some r \<Rightarrow> (case data r of None \<Rightarrow> None | Some d \<Rightarrow> message d)))"

text \<open>\<^verbatim>\<open>m || fallback\<close> on an optional string: the fallback replaces \<^verbatim>\<open>undefined\<close>
  and the empty string.\<close>

definition or_else :: "string option \<Rightarrow> string \<Rightarrow> string" where
  "or_else m fallback = (case m of None \<Rightarrow> fallback | Some s \<Rightarrow> if s \<noteq> [] then s else fallback)"

definition onSubmit_catch :: "caught \<Rightarrow> world \<Rightarrow> world" where
  "onSubmit_catch c w =
     toast_error (or_else (response_message c) ''Login failed'') (console_error ''Login failed'' w)"

text \<open>
  \<^verbatim>\<open>
  const onSubmit = async (data: LoginFormData) => {
    try {
      const response = await api.post('/auth/login', data);
      const { token, data: { user } } = response.data;
      login(token, user);
      toast.success('Welcome back!');
      navigate('/dashboard');
    } catch (error: any) {
      console.error('Login failed', error);
      toast.error(error.response?.data?.message || 'Login failed');
    }
  };
  \<close>
\<close>

text \<open>
  \<^verbatim>\<open>const { token, data: { user } } = response.data\<close> throws (\<open>None\<close>) when the
  body or its \<^verbatim>\<open>data\<close> object is missing. Otherwise it binds \<^verbatim>\<open>token\<close> and
  \<^verbatim>\<open>user\<close> to what is there, \<^verbatim>\<open>undefined\<close> for a property that is not: a body
  \<^verbatim>\<open>{ token: 'abc', data: {} }\<close> yields the token and no user, and \<^verbatim>\<open>login\<close> is
  called with the two.
\<close>

definition destructure :: "response \<Rightarrow> (string option \<times> User option) option" where
  "destructure r =
     (case data r of
        None \<Rightarrow> None
      | Some d \<Rightarrow> (case body_data d of None \<Rightarrow> None | Some u \<Rightarrow> Some (body_token d, u)))"

definition onSubmit :: "(User \<Rightarrow> string) \<Rightarrow> world \<Rightarrow> LoginFormData \<Rightarrow> (config \<Rightarrow> outcome) \<Rightarrow> world" where
  "onSubmit stringify w d server =
     (case api_post w ''/auth/login'' [(''email'', email d), (''password'', password d)] server of
        (w1, Inl e) \<Rightarrow> onSubmit_catch (AxiosError e) w1
      | (w1, Inr r) \<Rightarrow>
          (case destructure r of
             None \<Rightarrow> onSubmit_catch TypeError w1
           | Some (tok, u) \<Rightarrow>
               navigate ''/dashboard'' (toast_success ''Welcome back!'' (login stringify tok u w1))))"

section \<open>Routes and role-dependent components\<close>

text \<open>The elements the modelled components return. \<open>DashboardLayoutEl\<close> carries the
  element of the matched child route, which the layout shows in its outlet.\<close>

datatype element =
    Navigate string bool
  | Fragment "element list"
  | DashboardLayoutEl "element option"
  | LoginEl
  | DashboardEl
  | TenantsEl
  | PropertiesEl
  | LandlordsEl
  | LeasesEl
  | InvoicesEl
  | PaymentsEl
  | MaintenanceEl
  | AccountManagementEl
  | StaffDashboardEl
  | AdminDashboardEl

text \<open>
  \<^verbatim>\<open>
  const ProtectedRoute = ({ children }) => {
    const { isAuthenticated } = useAuth();
    if (!isAuthenticated) {
      return <Navigate to="/login" replace />;
    }
    return <>{children}</>;
  };
  \<close>
\<close>

definition ProtectedRoute :: "AuthContextType \<Rightarrow> element list \<Rightarrow> element" where
  "ProtectedRoute ctx children =
     (if \<not> isAuthenticated ctx then Navigate ''/login'' True else Fragment children)"

text \<open>The child routes of \<^verbatim>\<open>/dashboard\<close>, in the order of App.tsx; \<open>None\<close> is the index
  route.\<close>

definition dashboard_routes :: "(string option \<times> element) list" where
  "dashboard_routes =
     [(None, DashboardEl),
      (Some ''tenants'', TenantsEl),
      (Some ''properties'', PropertiesEl),
      (Some ''landlords'', LandlordsEl),
      (Some ''leases'', LeasesEl),
      (Some ''invoices'', InvoicesEl),
      (Some ''payments'', PaymentsEl),
      (Some ''maintenance'', MaintenanceEl),
      (Some ''account-management'', AccountManagementEl)]"

text \<open>
  \<^verbatim>\<open>AppRoutes\<close>: what the route table renders at a path, \<open>None\<close> when no route
  matches. A path matches a route when it equals the route's full path; the router's
  tolerance for letter case and trailing slashes is left out.
\<close>

definition AppRoutes :: "AuthContextType \<Rightarrow> string \<Rightarrow> element option" where
  "AppRoutes ctx pathname =
     (if pathname = ''/login'' then Some LoginEl
      else if pathname = ''/dashboard''
        then Some (ProtectedRoute ctx [DashboardLayoutEl (map_of dashboard_routes None)])
      else if take 11 pathname = ''/dashboard/''
        then (case map_of dashboard_routes (Some (drop 11 pathname)) of
                None \<Rightarrow> None
              | Some el \<Rightarrow> Some (ProtectedRoute ctx [DashboardLayoutEl (Some el)]))
      else if pathname = ''/'' then Some (Navigate ''/dashboard'' True)
      else None)"

text \<open>
  \<^verbatim>\<open>
  export const Dashboard = () => {
    const { user } = useAuth();
    if (user?.role === 'STAFF') {
      return <StaffDashboard />;
    }
    return <AdminDashboard />;
  };
  \<close>
\<close>

definition role_is :: "User option \<Rightarrow> string \<Rightarrow> bool" where
  \<comment> \<open>\<^verbatim>\<open>user?.role === r\<close>\<close>
  "role_is u r = (case u of None \<Rightarrow> False | Some v \<Rightarrow> role v = r)"

definition Dashboard :: "AuthContextType \<Rightarrow> element" where
  "Dashboard ctx = (if role_is (user ctx) ''STAFF'' then StaffDashboardEl else AdminDashboardEl)"

text \<open>
  The sidebar (components/Sidebar.tsx): the mobile overlay and the navigation links, in
  order. The common items come from \<^verbatim>\<open>navItems\<close>; the last link is rendered under
  \<^verbatim>\<open>user?.role === 'ADMIN'\<close>. The Sign Out button, whose handler is \<^verbatim>\<open>logout\<close>,
  is the event \<open>SignOut\<close> below.
\<close>

record nav_item =
  name :: string
  path :: string
  icon :: string

definition navItems :: "nav_item list" where
  "navItems =
     [\<lparr>name = ''Dashboard'', path = ''/dashboard'', icon = ''LayoutDashboard''\<rparr>,
      \<lparr>name = ''Tenants'', path = ''/dashboard/tenants'', icon = ''Users''\<rparr>,
      \<lparr>name = ''Properties'', path = ''/dashboard/properties'', icon = ''Home''\<rparr>,
      \<lparr>name = ''Landlords'', path = ''/dashboard/landlords'', icon = ''Key''\<rparr>,
      \<lparr>name = ''Leases'', path = ''/dashboard/leases'', icon = ''FileText''\<rparr>,
      \<lparr>name = ''Invoices'', path = ''/dashboard/invoices'', icon = ''CreditCard''\<rparr>,
      \<lparr>name = ''Payments'', path = ''/dashboard/payments'', icon = ''CreditCard''\<rparr>,
      \<lparr>name = ''Maintenance'', path = ''/dashboard/maintenance'', icon = ''PenTool''\<rparr>]"

record link =
  label :: string
  to :: string
  active :: bool

record sidebar =
  overlay :: bool
  links :: "link list"

definition Sidebar :: "AuthContextType \<Rightarrow> string \<Rightarrow> bool \<Rightarrow> sidebar" where
  "Sidebar ctx pathname isOpen =
     \<lparr>overlay = isOpen,
      links =
        map (\<lambda>item. \<lparr>label = name item, to = path item, active = (pathname = path item)\<rparr>) navItems
        @ (if role_is (user ctx) ''ADMIN''
           then [\<lparr>label = ''Account Management'', to = ''/dashboard/account-management'',
                  active = (pathname = ''/dashboard/account-management'')\<rparr>]
           else [])\<rparr>"

section \<open>Runs of the application\<close>

text \<open>
  The operations that act on the session: a submission of the login form and any other
  request through the client, each with what the transport answers, and the sidebar's
  Sign Out button, whose handler is \<^verbatim>\<open>logout\<close>.
\<close>

datatype event =
    Submit LoginFormData outcome
  | Api config outcome
  | SignOut

definition step :: "(User \<Rightarrow> string) \<Rightarrow> world \<Rightarrow> event \<Rightarrow> world" where
  "step stringify w ev =
     (case ev of
        Submit d out \<Rightarrow> onSubmit stringify w d (\<lambda>_. out)
      | Api cfg out \<Rightarrow> fst (api_request w cfg (\<lambda>_. out))
      | SignOut \<Rightarrow> logout w)"

definition run :: "(User \<Rightarrow> string) \<Rightarrow> world \<Rightarrow> event list \<Rightarrow> world" where
  "run stringify w evs = foldl (step stringify) w evs"

text \<open>An event is a login when it is a submission that the server accepts with a body
  that can be destructured: the only place \<^verbatim>\<open>login\<close> is called.\<close>

definition logs_in :: "event \<Rightarrow> bool" where
  "logs_in ev =
     (case ev of
        Submit d out \<Rightarrow> (case settle out of Inl e \<Rightarrow> False | Inr r \<Rightarrow> destructure r \<noteq> None)
      | Api cfg out \<Rightarrow> False
      | SignOut \<Rightarrow> False)"

text \<open>A submission keeps to the envelope \<^verbatim>\<open>{ token, data: { user } }\<close> when the
  body the server accepts it with, if it can be destructured, has both the token and the
  user. Every other event does.\<close>

definition full_envelope :: "event \<Rightarrow> bool" where
  "full_envelope ev =
     (case ev of
        Submit d out \<Rightarrow>
          (case settle out of
             Inl e \<Rightarrow> True
           | Inr r \<Rightarrow>
               (case destructure r of None \<Rightarrow> True | Some (tok, u) \<Rightarrow> tok \<noteq> None \<and> u \<noteq> None))
      | Api cfg out \<Rightarrow> True
      | SignOut \<Rightarrow> True)"

text \<open>The token and the profile are held together, in the store and in memory, and a
  stored pair is the one in memory.\<close>

definition paired :: "(User \<Rightarrow> string) \<Rightarrow> world \<Rightarrow> bool" where
  "paired stringify w =
     ((case (getItem (localStorage w) ''token'', getItem (localStorage w) ''user'') of
         (None, None) \<Rightarrow> True
       | (Some t, Some s) \<Rightarrow> mem_token w = Some t \<and> map_option stringify (mem_user w) = Some s
       | _ \<Rightarrow> False)
      \<and> ((mem_token w = None) = (mem_user w = None)))"

section \<open>Concrete data\<close>

text \<open>Profiles, a filled-in login form, replies of the server and states, used where a
  statement below is evaluated at a concrete input.\<close>

definition ada :: User where
  "ada = \<lparr>user_id = ''u1'', fullName = ''Ada'', user_email = ''ada@example.com'',
           role = ''STAFF'', user_status = ''ACTIVE''\<rparr>"

definition root :: User where
  "root = \<lparr>user_id = ''u0'', fullName = ''Root'', user_email = ''root@example.com'',
            role = ''ADMIN'', user_status = ''ACTIVE''\<rparr>"

definition manager :: User where
  "manager = \<lparr>user_id = ''u2'', fullName = ''Max'', user_email = ''max@example.com'',
               role = ''MANAGER'', user_status = ''ACTIVE''\<rparr>"

definition form :: LoginFormData where
  "form = \<lparr>email = ''ada@example.com'', password = ''secret1''\<rparr>"

definition reply_ok :: response where
  "reply_ok = \<lparr>status = 200,
                data = Some \<lparr>message = None, body_token = Some ''abc'', body_data = Some (Some ada)\<rparr>\<rparr>"

definition reply_401 :: response where
  "reply_401 = \<lparr>status = 401,
                 data = Some \<lparr>message = Some ''Incorrect email or password'',
                              body_token = None, body_data = None\<rparr>\<rparr>"

text \<open>An accepted reply whose body is \<^verbatim>\<open>{ token: 'abc', data: {} }\<close>.\<close>

definition reply_no_user :: response where
  "reply_no_user = \<lparr>status = 200,
                     data = Some \<lparr>message = None, body_token = Some ''abc'', body_data = Some None\<rparr>\<rparr>"

text \<open>A transport that answers 200 when the request it receives carries the expected
  \<^verbatim>\<open>Authorization\<close> header (or none, for \<open>None\<close>) and 400 otherwise.\<close>

definition probe :: "string option \<Rightarrow> config \<Rightarrow> outcome" where
  "probe expected cfg =
     Reply \<lparr>status = (if headers cfg ''Authorization'' = expected then 200 else 400), data = None\<rparr>"

definition reply_500 :: response where
  "reply_500 = \<lparr>status = 500, data = None\<rparr>"

text \<open>The state after a first successful login, with the profile stored under its name.\<close>

definition signed_in :: world where
  "signed_in = onSubmit fullName init form (\<lambda>_. Reply reply_ok)"

text \<open>A browser that holds a session and shows the login screen, written out.\<close>

definition returning_user :: world where
  "returning_user =
     \<lparr>localStorage = [''token'' \<mapsto> ''abc'', ''user'' \<mapsto> ''Ada''], href = ''/login'',
      document_loads = 0, mem_token = Some ''abc'', mem_user = Some ada, toasts = [], console = []\<rparr>"

definition staff_ctx :: AuthContextType where
  "staff_ctx = \<lparr>user = Some ada, isAuthenticated = True\<rparr>"

definition admin_ctx :: AuthContextType where
  "admin_ctx = \<lparr>user = Some root, isAuthenticated = True\<rparr>"

definition guest_ctx :: AuthContextType where
  "guest_ctx = \<lparr>user = None, isAuthenticated = False\<rparr>"

section \<open>Basic facts\<close>

lemma getItem_removeItem:
  "getItem (removeItem ls k) k' = (if k' = k then None else getItem ls k')"
  by (simp add: getItem_def removeItem_def)

lemma getItem_setItem:
  "getItem (setItem ls k v) k' = (if k' = k then Some v else getItem ls k')"
  by (simp add: getItem_def setItem_def)

lemma request_interceptor_headers:
  "headers (request_interceptor w cfg) h =
     (case getItem (localStorage w) ''token'' of
        None \<Rightarrow> headers cfg h
      | Some t \<Rightarrow> if t \<noteq> [] \<and> h = ''Authorization'' then Some (''Bearer '' @ t) else headers cfg h)"
  by (simp add: request_interceptor_def split: option.split)

lemma call_config_no_authorization:
  "headers (call_config m p b ct) ''Authorization'' = None"
  by (simp add: call_config_def split: option.split)

lemma settle_401:
  "status r = 401 \<Longrightarrow> settle (Reply r) = Inl \<lparr>response = Some r\<rparr>"
  by (simp add: settle_def)

text \<open>\<^verbatim>\<open>onSubmit\<close> with the request pipeline unfolded: the state the \<^verbatim>\<open>catch\<close> block
  sees is the one the response interceptor left.\<close>

lemma onSubmit_unfold:
  "onSubmit stringify w d server =
     (case settle (server (request_interceptor w
              (call_config POST ''/auth/login''
                 (Some [(''email'', email d), (''password'', password d)]) None))) of
        Inl e \<Rightarrow> onSubmit_catch (AxiosError e) (fst (response_rejected w e))
      | Inr r \<Rightarrow>
          (case destructure r of
             None \<Rightarrow> onSubmit_catch TypeError w
           | Some (tok, u) \<Rightarrow>
               navigate ''/dashboard'' (toast_success ''Welcome back!'' (login stringify tok u w))))"
  by (simp add: onSubmit_def api_post_def api_request_def response_fulfilled_def
        response_rejected_def split: sum.split)

lemma signed_in_eq:
  "signed_in =
     \<lparr>localStorage = [''token'' \<mapsto> ''abc'', ''user'' \<mapsto> ''Ada''], href = ''/dashboard'',
      document_loads = 0, mem_token = Some ''abc'', mem_user = Some ada,
      toasts = [ToastSuccess ''Welcome back!''], console = []\<rparr>"
  by (simp add: signed_in_def onSubmit_unfold settle_def reply_ok_def destructure_def
        navigate_def toast_success_def login_def stored_string_def init_def setItem_def ada_def)

lemma run_Nil: "run stringify w [] = w"
  by (simp add: run_def)

lemma run_Cons: "run stringify w (ev # evs) = run stringify (step stringify w ev) evs"
  by (simp add: run_def)

section \<open>The request interceptor\<close>

text \<open>The request interceptor on a call of the application: the configuration with its
  \<^verbatim>\<open>Authorization\<close> header set from the stored token, or left without one.\<close>

lemma request_interceptor_call_config:
  "request_interceptor w (call_config m p b ct) =
     (call_config m p b ct)
       \<lparr>headers := (headers (call_config m p b ct))
          (''Authorization'' :=
             (case getItem (localStorage w) ''token'' of
                None \<Rightarrow> None
              | Some t \<Rightarrow> if t \<noteq> [] then Some (''Bearer '' @ t) else None))\<rparr>"
proof -
  have none: "(headers (call_config m p b ct))(''Authorization'' := None) = headers (call_config m p b ct)"
    using call_config_no_authorization [of m p b ct] by (simp add: fun_upd_idem)
  show ?thesis
    by (simp add: request_interceptor_def none split: option.split)
qed

text \<open>
  Claim C1. Every request issued through the client passes the request interceptor before
  it is sent, and the interceptor reads the token from the store at that moment. For a call
  as the application makes them (\<open>call_config\<close>: a verb, a path, a body, at most a content
  type), what the transport receives, and so what decides the result of the request, is
  the caller's configuration with the header \<^verbatim>\<open>Authorization\<close> equal to
  \<^verbatim>\<open>Bearer <token>\<close> when the store holds a token, and with no \<^verbatim>\<open>Authorization\<close>
  header when it holds none. A token is a non-empty string: the test \<^verbatim>\<open>if (token)\<close>
  takes an empty stored string as no token. The second part is the same for
  \<^verbatim>\<open>api.post\<close>.
\<close>

theorem api_request_sends_bearer_token:
  "api_request w (call_config m p b ct) server =
     (case settle (server
              ((call_config m p b ct)
                 \<lparr>headers := (headers (call_config m p b ct))
                    (''Authorization'' :=
                       (case getItem (localStorage w) ''token'' of
                          None \<Rightarrow> None
                        | Some t \<Rightarrow> if t \<noteq> [] then Some (''Bearer '' @ t) else None))\<rparr>)) of
        Inr r \<Rightarrow> (w, Inr r)
      | Inl e \<Rightarrow> response_rejected w e)
   \<and> api_post w q d server =
     (case settle (server
              ((call_config POST q (Some d) None)
                 \<lparr>headers := (headers (call_config POST q (Some d) None))
                    (''Authorization'' :=
                       (case getItem (localStorage w) ''token'' of
                          None \<Rightarrow> None
                        | Some t \<Rightarrow> if t \<noteq> [] then Some (''Bearer '' @ t) else None))\<rparr>)) of
        Inr r \<Rightarrow> (w, Inr r)
      | Inl e \<Rightarrow> response_rejected w e)"
proof
  show "api_request w (call_config m p b ct) server =
     (case settle (server
              ((call_config m p b ct)
                 \<lparr>headers := (headers (call_config m p b ct))
                    (''Authorization'' :=
                       (case getItem (localStorage w) ''token'' of
                          None \<Rightarrow> None
                        | Some t \<Rightarrow> if t \<noteq> [] then Some (''Bearer '' @ t) else None))\<rparr>)) of
        Inr r \<Rightarrow> (w, Inr r)
      | Inl e \<Rightarrow> response_rejected w e)"
    unfolding api_request_def response_fulfilled_def
    by (simp only: request_interceptor_call_config)
  show "api_post w q d server =
     (case settle (server
              ((call_config POST q (Some d) None)
                 \<lparr>headers := (headers (call_config POST q (Some d) None))
                    (''Authorization'' :=
                       (case getItem (localStorage w) ''token'' of
                          None \<Rightarrow> None
                        | Some t \<Rightarrow> if t \<noteq> [] then Some (''Bearer '' @ t) else None))\<rparr>)) of
        Inr r \<Rightarrow> (w, Inr r)
      | Inl e \<Rightarrow> response_rejected w e)"
    unfolding api_post_def api_request_def response_fulfilled_def
    by (simp only: request_interceptor_call_config)
qed

text \<open>With a stored token the transport that expects \<^verbatim>\<open>Bearer abc\<close> is satisfied and the
  one that expects no header is not; with an empty store it is the other way round.\<close>

theorem api_request_sends_bearer_token_witness:
  "api_request returning_user (call_config GET ''/tenants'' None None) (probe (Some ''Bearer abc''))
     = (returning_user, Inr \<lparr>status = 200, data = None\<rparr>)
   \<and> snd (api_request returning_user (call_config GET ''/tenants'' None None) (probe None))
     = Inl \<lparr>response = Some \<lparr>status = 400, data = None\<rparr>\<rparr>
   \<and> api_request init (call_config GET ''/tenants'' None None) (probe None)
     = (init, Inr \<lparr>status = 200, data = None\<rparr>)
   \<and> snd (api_request init (call_config GET ''/tenants'' None None) (probe (Some ''Bearer abc'')))
     = Inl \<lparr>response = Some \<lparr>status = 400, data = None\<rparr>\<rparr>"
proof -
  have a: "getItem (localStorage returning_user) ''token'' = Some ''abc''"
    by (simp add: returning_user_def getItem_def)
  have b: "getItem (localStorage init) ''token'' = None"
    by (simp add: init_def getItem_def)
  note sent = api_request_sends_bearer_token [THEN conjunct1]
  from sent [of returning_user GET "''/tenants''" None None "probe (Some ''Bearer abc'')"]
    sent [of returning_user GET "''/tenants''" None None "probe None"]
    sent [of init GET "''/tenants''" None None "probe None"]
    sent [of init GET "''/tenants''" None None "probe (Some ''Bearer abc'')"]
  show ?thesis
    by (simp add: a b probe_def settle_def response_rejected_def unauthorized_def)
qed

section \<open>The response interceptor\<close>

text \<open>
  Claim C2. When the response interceptor handles a rejection whose response has status
  401, it removes the stored token and the stored user, assigns the login path to
  \<^verbatim>\<open>window.location.href\<close> (a full navigation: one more document load) and rejects
  with the same error, so the caller still sees the failure. A reply of the server with
  status 401 reaches this handler: the last part.
\<close>

theorem unauthorized_response_clears_session:
  assumes "response e = Some r" and "status r = 401"
  shows "response_rejected w e =
           (w\<lparr>localStorage := removeItem (removeItem (localStorage w) ''token'') ''user'',
              href := ''/login'',
              document_loads := Suc (document_loads w)\<rparr>, Inl e)
       \<and> getItem (localStorage (fst (response_rejected w e))) ''token'' = None
       \<and> getItem (localStorage (fst (response_rejected w e))) ''user'' = None
       \<and> href (fst (response_rejected w e)) = ''/login''
       \<and> document_loads (fst (response_rejected w e)) = Suc (document_loads w)
       \<and> snd (response_rejected w e) = Inl e
       \<and> api_request w cfg (\<lambda>_. Reply r) = response_rejected w \<lparr>response = Some r\<rparr>"
proof -
  from assms have "unauthorized e"
    by (simp add: unauthorized_def)
  then have handler: "response_rejected w e =
           (w\<lparr>localStorage := removeItem (removeItem (localStorage w) ''token'') ''user'',
              href := ''/login'',
              document_loads := Suc (document_loads w)\<rparr>, Inl e)"
    by (simp add: response_rejected_def)
  have pipeline: "api_request w cfg (\<lambda>_. Reply r) = response_rejected w \<lparr>response = Some r\<rparr>"
    using assms(2) by (simp add: api_request_def settle_def)
  from handler pipeline show ?thesis
    by (simp add: getItem_removeItem)
qed

theorem unauthorized_response_clears_session_witness:
  "response_rejected signed_in \<lparr>response = Some reply_401\<rparr> =
     (\<lparr>localStorage = Map.empty, href = ''/login'', document_loads = 1,
       mem_token = Some ''abc'', mem_user = Some ada,
       toasts = [ToastSuccess ''Welcome back!''], console = []\<rparr>,
      Inl \<lparr>response = Some reply_401\<rparr>)"
proof -
  have "response \<lparr>response = Some reply_401\<rparr> = Some reply_401" "status reply_401 = 401"
    by (simp_all add: reply_401_def)
  from unauthorized_response_clears_session [OF this, of signed_in]
  have "response_rejected signed_in \<lparr>response = Some reply_401\<rparr> =
          (signed_in\<lparr>localStorage := removeItem (removeItem (localStorage signed_in) ''token'') ''user'',
             href := ''/login'',
             document_loads := Suc (document_loads signed_in)\<rparr>, Inl \<lparr>response = Some reply_401\<rparr>)"
    by blast
  then show ?thesis
    by (simp add: signed_in_eq removeItem_def)
qed

text \<open>
  Claim C5. A rejection that is not a response of status 401 (another status, or no
  response at all) is rejected again as it came, and the state is the one before: the
  store, the location and everything else. The second part is the network failure through
  the whole pipeline, the third any reply the client settles as this rejection.
\<close>

theorem other_errors_pass_through:
  assumes "\<not> (\<exists>r. response e = Some r \<and> status r = 401)"
  shows "response_rejected w e = (w, Inl e)
       \<and> api_request w cfg (\<lambda>_. NetworkError) = (w, Inl \<lparr>response = None\<rparr>)
       \<and> (settle out = Inl e \<longrightarrow> api_request w cfg (\<lambda>_. out) = (w, Inl e))"
proof -
  from assms have "\<not> unauthorized e"
    by (auto simp: unauthorized_def split: option.splits)
  then have handler: "response_rejected w e = (w, Inl e)"
    by (simp add: response_rejected_def)
  have network: "api_request w cfg (\<lambda>_. NetworkError) = (w, Inl \<lparr>response = None\<rparr>)"
    by (simp add: api_request_def settle_def response_rejected_def unauthorized_def)
  have pipeline: "settle out = Inl e \<longrightarrow> api_request w cfg (\<lambda>_. out) = (w, Inl e)"
    using handler by (simp add: api_request_def)
  from handler network pipeline show ?thesis
    by simp
qed

theorem other_errors_pass_through_witness:
  "response_rejected signed_in \<lparr>response = Some reply_500\<rparr>
     = (signed_in, Inl \<lparr>response = Some reply_500\<rparr>)
   \<and> response_rejected signed_in \<lparr>response = None\<rparr> = (signed_in, Inl \<lparr>response = None\<rparr>)
   \<and> api_request signed_in (call_config GET ''/tenants'' None None) (\<lambda>_. Reply reply_500)
       = (signed_in, Inl \<lparr>response = Some reply_500\<rparr>)"
proof -
  have a: "\<not> (\<exists>r. response \<lparr>response = Some reply_500\<rparr> = Some r \<and> status r = 401)"
    by (simp add: reply_500_def)
  have b: "\<not> (\<exists>r. response \<lparr>response = None\<rparr> = Some r \<and> status r = 401)"
    by simp
  have s: "settle (Reply reply_500) = Inl \<lparr>response = Some reply_500\<rparr>"
    by (simp add: settle_def reply_500_def)
  from other_errors_pass_through [OF a, of signed_in _ "Reply reply_500"]
    other_errors_pass_through [OF b, of signed_in] s
  show ?thesis by simp
qed

section \<open>The session across operations\<close>

lemma step_keeps_no_token:
  assumes "getItem (localStorage w) ''token'' = None" and "\<not> logs_in ev"
  shows "getItem (localStorage (step stringify w ev)) ''token'' = None"
proof (cases ev)
  case (Submit d out)
  with assms show ?thesis
    by (auto simp: step_def logs_in_def onSubmit_unfold response_rejected_def onSubmit_catch_def
          toast_error_def console_error_def getItem_removeItem split: sum.splits)
next
  case (Api cfg out)
  with assms show ?thesis
    by (auto simp: step_def api_request_def response_fulfilled_def response_rejected_def
          getItem_removeItem split: sum.splits)
next
  case SignOut
  then show ?thesis
    by (simp add: step_def logout_def getItem_removeItem)
qed

lemma run_keeps_no_token:
  assumes "getItem (localStorage w) ''token'' = None" and "\<forall>ev\<in>set evs. \<not> logs_in ev"
  shows "getItem (localStorage (run stringify w evs)) ''token'' = None"
  using assms unfolding run_def
  by (induction evs arbitrary: w) (simp_all add: step_keeps_no_token)

text \<open>
  Claim C4. Let a request through the client be answered with status 401. Whatever happens
  next short of a login (further requests with any answer, rejected or malformed login
  attempts, signing out), a request the application then issues carries no
  \<^verbatim>\<open>Authorization\<close> header: the 401 handler removed the token the request interceptor
  reads, and only a login stores one again.
\<close>

theorem no_authorization_after_401:
  assumes "server (request_interceptor w cfg) = Reply r" and "status r = 401"
    and "\<forall>ev\<in>set evs. \<not> logs_in ev"
  shows "headers (request_interceptor (run stringify (fst (api_request w cfg server)) evs)
                    (call_config m p b ct)) ''Authorization'' = None"
proof -
  let ?w1 = "fst (api_request w cfg server)"
  have "settle (server (request_interceptor w cfg)) = Inl \<lparr>response = Some r\<rparr>"
    using assms(1,2) by (simp add: settle_401)
  then have "getItem (localStorage ?w1) ''token'' = None"
    using assms(2)
    by (simp add: api_request_def response_rejected_def unauthorized_def getItem_removeItem)
  then have "getItem (localStorage (run stringify ?w1 evs)) ''token'' = None"
    using assms(3) by (rule run_keeps_no_token)
  then show ?thesis
    by (simp add: request_interceptor_headers call_config_no_authorization)
qed

theorem no_authorization_after_401_witness:
  "headers (request_interceptor signed_in (call_config GET ''/properties'' None None)) ''Authorization''
     = Some ''Bearer abc''
   \<and> headers (request_interceptor
        (run fullName (fst (api_request signed_in (call_config GET ''/properties'' None None)
                              (\<lambda>_. Reply reply_401)))
           [Api (call_config GET ''/tenants'' None None) (Reply reply_500),
            Submit form (Reply reply_401), SignOut])
        (call_config GET ''/landlords'' None None)) ''Authorization'' = None"
proof -
  have b: "status reply_401 = 401"
    by (simp add: reply_401_def)
  have c: "\<forall>ev\<in>set [Api (call_config GET ''/tenants'' None None) (Reply reply_500),
            Submit form (Reply reply_401), SignOut].
             \<not> logs_in ev"
    by (simp add: logs_in_def settle_def reply_401_def)
  have d: "headers (request_interceptor signed_in (call_config GET ''/properties'' None None))
             ''Authorization'' = Some ''Bearer abc''"
    by (simp add: request_interceptor_headers signed_in_eq getItem_def call_config_no_authorization)
  from no_authorization_after_401 [where server = "\<lambda>_. Reply reply_401" and w = signed_in
      and cfg = "call_config GET ''/properties'' None None" and r = reply_401
      and evs = "[Api (call_config GET ''/tenants'' None None) (Reply reply_500),
            Submit form (Reply reply_401), SignOut]"
      and stringify = fullName and m = GET and p = "''/landlords''" and b = None and ct = None,
      OF refl b c] d
  show ?thesis by simp
qed

lemma paired_init: "paired stringify init"
  by (simp add: paired_def init_def getItem_def)

lemma paired_response_rejected:
  assumes "paired stringify w"
  shows "paired stringify (fst (response_rejected w e))"
proof (cases "unauthorized e")
  case True
  with assms show ?thesis
    by (auto simp: paired_def response_rejected_def getItem_removeItem split: option.splits)
next
  case False
  with assms show ?thesis
    by (simp add: response_rejected_def)
qed

lemma paired_login: "paired stringify (login stringify (Some tok) (Some u) w)"
  by (simp add: paired_def login_def stored_string_def getItem_setItem)

lemma paired_logout: "paired stringify (logout w)"
  by (simp add: paired_def logout_def getItem_removeItem)

lemma paired_decor:
  "paired stringify (toast_error msg w) = paired stringify w"
  "paired stringify (toast_success msg w) = paired stringify w"
  "paired stringify (console_error msg w) = paired stringify w"
  "paired stringify (navigate p w) = paired stringify w"
  by (simp_all add: paired_def toast_error_def toast_success_def console_error_def navigate_def
        split: option.split)

lemma step_paired:
  assumes "paired stringify w" and "full_envelope ev"
  shows "paired stringify (step stringify w ev)"
proof (cases ev)
  case (Submit d out)
  show ?thesis
  proof (cases "settle out")
    case (Inl e)
    with Submit assms(1) show ?thesis
      by (simp add: step_def onSubmit_unfold onSubmit_catch_def paired_decor paired_response_rejected)
  next
    case (Inr r)
    show ?thesis
    proof (cases "destructure r")
      case None
      with Submit Inr assms(1) show ?thesis
        by (simp add: step_def onSubmit_unfold onSubmit_catch_def paired_decor)
    next
      case (Some pair)
      obtain tok u where pair: "pair = (tok, u)"
        by (cases pair)
      from assms(2) Submit Inr Some pair obtain t v where "tok = Some t" and "u = Some v"
        by (auto simp: full_envelope_def)
      with Submit Inr Some pair show ?thesis
        by (simp add: step_def onSubmit_unfold paired_decor paired_login)
    qed
  qed
next
  case (Api cfg out)
  with assms(1) show ?thesis
    by (simp add: step_def api_request_def response_fulfilled_def paired_response_rejected
          split: sum.split)
next
  case SignOut
  then show ?thesis
    by (simp add: step_def paired_logout)
qed

lemma run_paired:
  assumes "paired stringify w" and "\<forall>ev\<in>set evs. full_envelope ev"
  shows "paired stringify (run stringify w evs)"
  using assms unfolding run_def
  by (induction evs arbitrary: w) (simp_all add: step_paired)

lemma paired_iff:
  assumes "paired stringify w"
  shows "(getItem (localStorage w) ''token'' = None) = (getItem (localStorage w) ''user'' = None)"
    and "(mem_token w = None) = (mem_user w = None)"
  using assms by (auto simp: paired_def split: option.splits)

text \<open>
  Claim C3, as the code has it. In every state the application reaches from a fresh browser
  by login attempts, requests through the client (the 401 handler among their effects) and
  signing out, the token and the user profile are held together, provided every login the
  server accepts keeps to the envelope, its body holding both the token and the user: the
  store has both keys or neither, the context's memory has both values or neither, and a
  stored pair is the pair in memory. \<^verbatim>\<open>login\<close> and \<^verbatim>\<open>logout\<close> are the ones modelled
  from the specification.
\<close>

theorem token_and_user_together:
  assumes "\<forall>ev\<in>set evs. full_envelope ev"
  shows "paired stringify (run stringify init evs)
       \<and> (getItem (localStorage (run stringify init evs)) ''token'' = None)
           = (getItem (localStorage (run stringify init evs)) ''user'' = None)
       \<and> (mem_token (run stringify init evs) = None) = (mem_user (run stringify init evs) = None)"
proof -
  have "paired stringify (run stringify init evs)"
    using paired_init assms by (rule run_paired)
  then show ?thesis
    using paired_iff by blast
qed

theorem token_and_user_together_witness:
  "run fullName init [Submit form (Reply reply_ok)] = signed_in
   \<and> paired fullName signed_in
   \<and> getItem (localStorage signed_in) ''token'' = Some ''abc''
   \<and> getItem (localStorage signed_in) ''user'' = Some ''Ada''
   \<and> paired fullName (run fullName init
        [Submit form (Reply reply_ok), Api (call_config GET ''/tenants'' None None) (Reply reply_401)])"
proof -
  have r: "run fullName init [Submit form (Reply reply_ok)] = signed_in"
    by (simp add: run_Cons run_Nil step_def signed_in_def)
  have ok: "full_envelope (Submit form (Reply reply_ok))"
    by (simp add: full_envelope_def settle_def reply_ok_def destructure_def)
  have api: "full_envelope (Api (call_config GET ''/tenants'' None None) (Reply reply_401))"
    by (simp add: full_envelope_def)
  have one: "\<forall>ev\<in>set [Submit form (Reply reply_ok)]. full_envelope ev"
    using ok by simp
  have two: "\<forall>ev\<in>set [Submit form (Reply reply_ok),
               Api (call_config GET ''/tenants'' None None) (Reply reply_401)]. full_envelope ev"
    using ok api by simp
  from token_and_user_together [OF one, of fullName] token_and_user_together [OF two, of fullName] r
  show ?thesis
    by (simp add: signed_in_eq getItem_def)
qed

text \<open>
  The claim for every reachable state fails where the server accepts a login with a body
  that has a \<^verbatim>\<open>data\<close> object and no \<^verbatim>\<open>user\<close> in it, as \<^verbatim>\<open>{ token: 'abc', data: {} }\<close>.
  The destructuring does not throw, \<^verbatim>\<open>onSubmit\<close> calls \<^verbatim>\<open>login\<close> with the token and
  \<^verbatim>\<open>undefined\<close>, shows the welcome toast and navigates; the context then holds a token
  and no user.
\<close>

theorem login_without_user_breaks_pairing:
  "settle (Reply reply_no_user) = Inr reply_no_user
   \<and> destructure reply_no_user = Some (Some ''abc'', None)
   \<and> onSubmit fullName init form (\<lambda>_. Reply reply_no_user)
       = navigate ''/dashboard'' (toast_success ''Welcome back!'' (login fullName (Some ''abc'') None init))
   \<and> mem_token (run fullName init [Submit form (Reply reply_no_user)]) = Some ''abc''
   \<and> mem_user (run fullName init [Submit form (Reply reply_no_user)]) = None
   \<and> useAuth (run fullName init [Submit form (Reply reply_no_user)])
       = \<lparr>user = None, isAuthenticated = True\<rparr>
   \<and> \<not> paired fullName (run fullName init [Submit form (Reply reply_no_user)])"
proof -
  have settled: "settle (Reply reply_no_user) = Inr reply_no_user"
    by (simp add: settle_def reply_no_user_def)
  have parts: "destructure reply_no_user = Some (Some ''abc'', None)"
    by (simp add: destructure_def reply_no_user_def)
  have submit: "onSubmit fullName init form (\<lambda>_. Reply reply_no_user)
       = navigate ''/dashboard'' (toast_success ''Welcome back!'' (login fullName (Some ''abc'') None init))"
    by (simp add: onSubmit_unfold settled parts)
  have run: "run fullName init [Submit form (Reply reply_no_user)]
       = navigate ''/dashboard'' (toast_success ''Welcome back!'' (login fullName (Some ''abc'') None init))"
    by (simp add: run_Cons run_Nil step_def submit)
  have tok: "mem_token (run fullName init [Submit form (Reply reply_no_user)]) = Some ''abc''"
    by (simp add: run navigate_def toast_success_def login_def)
  have usr: "mem_user (run fullName init [Submit form (Reply reply_no_user)]) = None"
    by (simp add: run navigate_def toast_success_def login_def)
  from tok usr have ctx: "useAuth (run fullName init [Submit form (Reply reply_no_user)])
       = \<lparr>user = None, isAuthenticated = True\<rparr>"
    by (simp add: useAuth_def)
  from tok usr have broken: "\<not> paired fullName (run fullName init [Submit form (Reply reply_no_user)])"
    by (simp add: paired_def)
  from settled parts submit tok usr ctx broken show ?thesis
    by simp
qed

section \<open>The login form\<close>

text \<open>
  Claim C8, as the code has it. An accepted authentication (a reply of status 2xx whose body
  can be destructured into a token and a user) calls \<^verbatim>\<open>login\<close> with the two, shows the
  welcome toast and navigates to \<^verbatim>\<open>/dashboard\<close>. A rejected one, and an accepted reply whose body
  cannot be destructured, shows exactly one error toast and never calls \<^verbatim>\<open>login\<close>: the
  context's token and user are as before. The rejection has passed the response interceptor
  first, so the stored session and the location are untouched only when it is not a
  response of status 401; when it is, the stored token and user are gone and the document
  is sent to \<^verbatim>\<open>/login\<close> before the toast is shown.
\<close>

theorem onSubmit_outcomes:
  assumes sent: "server (request_interceptor w
            (call_config POST ''/auth/login''
               (Some [(''email'', email d), (''password'', password d)]) None)) = out"
  shows "(\<forall>r tok u. settle out = Inr r \<and> destructure r = Some (tok, u) \<longrightarrow>
            onSubmit stringify w d server
              = navigate ''/dashboard'' (toast_success ''Welcome back!'' (login stringify tok u w)))
      \<and> (\<forall>r. settle out = Inr r \<and> destructure r = None \<longrightarrow>
            onSubmit stringify w d server
              = toast_error ''Login failed'' (console_error ''Login failed'' w))
      \<and> (\<forall>e. settle out = Inl e \<longrightarrow>
            toasts (onSubmit stringify w d server)
              = toasts w @ [ToastError (or_else (response_message (AxiosError e)) ''Login failed'')]
            \<and> mem_token (onSubmit stringify w d server) = mem_token w
            \<and> mem_user (onSubmit stringify w d server) = mem_user w
            \<and> (if unauthorized e
               then localStorage (onSubmit stringify w d server)
                      = removeItem (removeItem (localStorage w) ''token'') ''user''
                    \<and> href (onSubmit stringify w d server) = ''/login''
                    \<and> document_loads (onSubmit stringify w d server) = Suc (document_loads w)
               else localStorage (onSubmit stringify w d server) = localStorage w
                    \<and> href (onSubmit stringify w d server) = href w
                    \<and> document_loads (onSubmit stringify w d server) = document_loads w))"
proof (intro conjI allI impI)
  fix r tok u
  assume "settle out = Inr r \<and> destructure r = Some (tok, u)"
  then show "onSubmit stringify w d server
      = navigate ''/dashboard'' (toast_success ''Welcome back!'' (login stringify tok u w))"
    by (simp add: onSubmit_unfold sent)
next
  fix r
  assume "settle out = Inr r \<and> destructure r = None"
  then show "onSubmit stringify w d server
      = toast_error ''Login failed'' (console_error ''Login failed'' w)"
    by (simp add: onSubmit_unfold sent onSubmit_catch_def response_message_def or_else_def)
next
  fix e
  assume rejected: "settle out = Inl e"
  have caught: "onSubmit stringify w d server
      = onSubmit_catch (AxiosError e) (fst (response_rejected w e))"
    by (simp add: onSubmit_unfold sent rejected)
  show "toasts (onSubmit stringify w d server)
      = toasts w @ [ToastError (or_else (response_message (AxiosError e)) ''Login failed'')]"
    by (simp add: caught onSubmit_catch_def toast_error_def console_error_def response_rejected_def)
  show "mem_token (onSubmit stringify w d server) = mem_token w"
    by (simp add: caught onSubmit_catch_def toast_error_def console_error_def response_rejected_def)
  show "mem_user (onSubmit stringify w d server) = mem_user w"
    by (simp add: caught onSubmit_catch_def toast_error_def console_error_def response_rejected_def)
  show "if unauthorized e
     then localStorage (onSubmit stringify w d server)
            = removeItem (removeItem (localStorage w) ''token'') ''user''
          \<and> href (onSubmit stringify w d server) = ''/login''
          \<and> document_loads (onSubmit stringify w d server) = Suc (document_loads w)
     else localStorage (onSubmit stringify w d server) = localStorage w
          \<and> href (onSubmit stringify w d server) = href w
          \<and> document_loads (onSubmit stringify w d server) = document_loads w"
    by (simp add: caught onSubmit_catch_def toast_error_def console_error_def response_rejected_def)
qed

theorem onSubmit_outcomes_witness:
  "onSubmit fullName init form (\<lambda>_. Reply reply_ok)
      = navigate ''/dashboard''
          (toast_success ''Welcome back!'' (login fullName (Some ''abc'') (Some ada) init))
   \<and> toasts (onSubmit fullName signed_in form (\<lambda>_. Reply reply_500))
      = [ToastSuccess ''Welcome back!'', ToastError ''Login failed'']
   \<and> localStorage (onSubmit fullName signed_in form (\<lambda>_. Reply reply_500)) = localStorage signed_in
   \<and> mem_token (onSubmit fullName signed_in form (\<lambda>_. Reply reply_500)) = Some ''abc''
   \<and> toasts (onSubmit fullName signed_in form (\<lambda>_. Reply reply_401))
      = [ToastSuccess ''Welcome back!'', ToastError ''Incorrect email or password'']
   \<and> href (onSubmit fullName signed_in form (\<lambda>_. Reply reply_401)) = ''/login''"
proof -
  have ok: "settle (Reply reply_ok) = Inr reply_ok
      \<and> destructure reply_ok = Some (Some ''abc'', Some ada)"
    by (simp add: settle_def reply_ok_def destructure_def)
  have e500: "settle (Reply reply_500) = Inl \<lparr>response = Some reply_500\<rparr>"
    by (simp add: settle_def reply_500_def)
  have e401: "settle (Reply reply_401) = Inl \<lparr>response = Some reply_401\<rparr>"
    by (simp add: settle_def reply_401_def)
  have n500: "\<not> unauthorized \<lparr>response = Some reply_500\<rparr>"
    by (simp add: unauthorized_def reply_500_def)
  have y401: "unauthorized \<lparr>response = Some reply_401\<rparr>"
    by (simp add: unauthorized_def reply_401_def)
  have m500: "or_else (response_message (AxiosError \<lparr>response = Some reply_500\<rparr>)) ''Login failed''
      = ''Login failed''"
    by (simp add: or_else_def response_message_def reply_500_def)
  have m401: "or_else (response_message (AxiosError \<lparr>response = Some reply_401\<rparr>)) ''Login failed''
      = ''Incorrect email or password''"
    by (simp add: or_else_def response_message_def reply_401_def)
  note a = onSubmit_outcomes [of "\<lambda>_. Reply reply_ok" init form "Reply reply_ok" fullName, OF refl]
  note b = onSubmit_outcomes [of "\<lambda>_. Reply reply_500" signed_in form "Reply reply_500" fullName, OF refl]
  note c = onSubmit_outcomes [of "\<lambda>_. Reply reply_401" signed_in form "Reply reply_401" fullName, OF refl]
  from a ok have 1: "onSubmit fullName init form (\<lambda>_. Reply reply_ok)
      = navigate ''/dashboard''
          (toast_success ''Welcome back!'' (login fullName (Some ''abc'') (Some ada) init))"
    by blast
  from b e500 n500 m500 have 2: "toasts (onSubmit fullName signed_in form (\<lambda>_. Reply reply_500))
      = toasts signed_in @ [ToastError ''Login failed'']
     \<and> localStorage (onSubmit fullName signed_in form (\<lambda>_. Reply reply_500)) = localStorage signed_in
     \<and> mem_token (onSubmit fullName signed_in form (\<lambda>_. Reply reply_500)) = mem_token signed_in"
    by simp
  from c e401 y401 m401 have 3: "toasts (onSubmit fullName signed_in form (\<lambda>_. Reply reply_401))
      = toasts signed_in @ [ToastError ''Incorrect email or password'']
     \<and> href (onSubmit fullName signed_in form (\<lambda>_. Reply reply_401)) = ''/login''"
    by simp
  from 1 2 3 show ?thesis
    by (simp add: signed_in_eq)
qed

text \<open>
  The claim as the specification words it, that a rejected authentication touches no
  session state, fails where the rejection is a 401 and a session is stored. The login
  route is not guarded, so a signed-in user can open the form; a submission the server
  answers with 401 is rejected, and afterwards the stored token and user are gone.
\<close>

theorem login_rejected_401_clears_stored_session:
  "AppRoutes (useAuth returning_user) ''/login'' = Some LoginEl
   \<and> getItem (localStorage returning_user) ''token'' = Some ''abc''
   \<and> getItem (localStorage returning_user) ''user'' = Some ''Ada''
   \<and> settle (Reply reply_401) = Inl \<lparr>response = Some reply_401\<rparr>
   \<and> getItem (localStorage (onSubmit fullName returning_user form (\<lambda>_. Reply reply_401))) ''token''
       = None
   \<and> getItem (localStorage (onSubmit fullName returning_user form (\<lambda>_. Reply reply_401))) ''user''
       = None
   \<and> localStorage (onSubmit fullName returning_user form (\<lambda>_. Reply reply_401))
       \<noteq> localStorage returning_user
   \<and> document_loads (onSubmit fullName returning_user form (\<lambda>_. Reply reply_401)) = 1"
proof -
  have store: "localStorage (onSubmit fullName returning_user form (\<lambda>_. Reply reply_401)) = Map.empty"
    by (simp add: returning_user_def onSubmit_unfold settle_def reply_401_def response_rejected_def
          unauthorized_def onSubmit_catch_def toast_error_def console_error_def removeItem_def)
  have loads: "document_loads (onSubmit fullName returning_user form (\<lambda>_. Reply reply_401)) = 1"
    by (simp add: returning_user_def onSubmit_unfold settle_def reply_401_def response_rejected_def
          unauthorized_def onSubmit_catch_def toast_error_def console_error_def)
  have before: "localStorage returning_user ''token'' = Some ''abc''"
    "localStorage returning_user ''user'' = Some ''Ada''"
    by (simp_all add: returning_user_def)
  from before(1) have differ: "localStorage returning_user \<noteq> Map.empty"
    by auto
  have settled: "settle (Reply reply_401) = Inl \<lparr>response = Some reply_401\<rparr>"
    by (simp add: settle_def reply_401_def)
  have route: "AppRoutes (useAuth returning_user) ''/login'' = Some LoginEl"
    by (simp add: AppRoutes_def)
  from store loads before differ settled route show ?thesis
    by (simp add: getItem_def)
qed

section \<open>The route guard, the routes and the role-dependent components\<close>

text \<open>
  Claim C6. The route guard returns, when \<^verbatim>\<open>isAuthenticated\<close> is false, the redirect to
  \<^verbatim>\<open>/login\<close> (with \<^verbatim>\<open>replace\<close>) and nothing of its children; when it is true, the
  fragment of exactly its children. Its result is a function of that one boolean and the
  children: it takes no state and makes no request.
\<close>

theorem ProtectedRoute_guard:
  "(\<not> isAuthenticated ctx \<longrightarrow> ProtectedRoute ctx children = Navigate ''/login'' True)
   \<and> (isAuthenticated ctx \<longrightarrow> ProtectedRoute ctx children = Fragment children)
   \<and> (isAuthenticated ctx = isAuthenticated ctx' \<longrightarrow>
        ProtectedRoute ctx children = ProtectedRoute ctx' children)"
  by (simp add: ProtectedRoute_def)

theorem ProtectedRoute_guard_witness:
  "ProtectedRoute guest_ctx [DashboardLayoutEl (Some TenantsEl)] = Navigate ''/login'' True
   \<and> ProtectedRoute staff_ctx [DashboardLayoutEl (Some TenantsEl)]
       = Fragment [DashboardLayoutEl (Some TenantsEl)]
   \<and> ProtectedRoute staff_ctx [DashboardLayoutEl (Some TenantsEl)]
       = ProtectedRoute admin_ctx [DashboardLayoutEl (Some TenantsEl)]
   \<and> AppRoutes guest_ctx ''/dashboard/tenants'' = Some (Navigate ''/login'' True)"
proof -
  have g: "\<not> isAuthenticated guest_ctx" and s: "isAuthenticated staff_ctx"
    and a: "isAuthenticated staff_ctx = isAuthenticated admin_ctx"
    by (simp_all add: guest_ctx_def staff_ctx_def admin_ctx_def)
  have r: "AppRoutes guest_ctx ''/dashboard/tenants''
      = Some (ProtectedRoute guest_ctx [DashboardLayoutEl (Some TenantsEl)])"
    by (simp add: AppRoutes_def dashboard_routes_def)
  from ProtectedRoute_guard [of guest_ctx "[DashboardLayoutEl (Some TenantsEl)]" guest_ctx] g
  have 1: "ProtectedRoute guest_ctx [DashboardLayoutEl (Some TenantsEl)] = Navigate ''/login'' True"
    by blast
  from ProtectedRoute_guard [of staff_ctx "[DashboardLayoutEl (Some TenantsEl)]" admin_ctx] s a
  have 2: "ProtectedRoute staff_ctx [DashboardLayoutEl (Some TenantsEl)]
       = Fragment [DashboardLayoutEl (Some TenantsEl)]"
    and 3: "ProtectedRoute staff_ctx [DashboardLayoutEl (Some TenantsEl)]
       = ProtectedRoute admin_ctx [DashboardLayoutEl (Some TenantsEl)]"
    by blast+
  from 1 2 3 r show ?thesis
    by (simp only: simp_thms)
qed

lemma Sidebar_labels:
  "map label (links (Sidebar ctx pathname isOpen)) =
     [''Dashboard'', ''Tenants'', ''Properties'', ''Landlords'', ''Leases'',
      ''Invoices'', ''Payments'', ''Maintenance'']
     @ (if role_is (user ctx) ''ADMIN'' then [''Account Management''] else [])"
  by (simp add: Sidebar_def navItems_def)

text \<open>
  Claim C7. For a signed-in user the sidebar shows the eight common entries (Dashboard,
  Tenants, Properties, Landlords, Leases, Invoices, Payments, Maintenance), in this order,
  followed by "Account Management" exactly when the user's role is ADMIN; the dashboard
  is the staff variant for the role STAFF and the admin variant for the role ADMIN.
\<close>

theorem role_gated_navigation_and_dashboard:
  assumes "user ctx = Some u"
  shows "map label (links (Sidebar ctx pathname isOpen)) =
           [''Dashboard'', ''Tenants'', ''Properties'', ''Landlords'', ''Leases'',
            ''Invoices'', ''Payments'', ''Maintenance'']
           @ (if role u = ''ADMIN'' then [''Account Management''] else [])
       \<and> (''Account Management'' \<in> set (map label (links (Sidebar ctx pathname isOpen))))
           = (role u = ''ADMIN'')
       \<and> (role u = ''STAFF'' \<longrightarrow> Dashboard ctx = StaffDashboardEl)
       \<and> (role u = ''ADMIN'' \<longrightarrow> Dashboard ctx = AdminDashboardEl)"
proof -
  have gate: "role_is (user ctx) r = (role u = r)" for r
    using assms by (simp add: role_is_def)
  have labels: "map label (links (Sidebar ctx pathname isOpen)) =
           [''Dashboard'', ''Tenants'', ''Properties'', ''Landlords'', ''Leases'',
            ''Invoices'', ''Payments'', ''Maintenance'']
           @ (if role u = ''ADMIN'' then [''Account Management''] else [])"
    by (simp add: Sidebar_labels gate)
  have staff: "role u = ''STAFF'' \<longrightarrow> Dashboard ctx = StaffDashboardEl"
    by (simp add: Dashboard_def gate)
  have admin: "role u = ''ADMIN'' \<longrightarrow> Dashboard ctx = AdminDashboardEl"
    by (simp add: Dashboard_def gate)
  from labels staff admin show ?thesis
    by simp
qed

theorem role_gated_navigation_and_dashboard_witness:
  "map label (links (Sidebar staff_ctx ''/dashboard'' False)) =
     [''Dashboard'', ''Tenants'', ''Properties'', ''Landlords'', ''Leases'',
      ''Invoices'', ''Payments'', ''Maintenance'']
   \<and> map label (links (Sidebar admin_ctx ''/dashboard'' False)) =
     [''Dashboard'', ''Tenants'', ''Properties'', ''Landlords'', ''Leases'',
      ''Invoices'', ''Payments'', ''Maintenance'', ''Account Management'']
   \<and> Dashboard staff_ctx = StaffDashboardEl
   \<and> Dashboard admin_ctx = AdminDashboardEl"
proof -
  have s: "user staff_ctx = Some ada" and a: "user admin_ctx = Some root"
    by (simp_all add: staff_ctx_def admin_ctx_def)
  have rs: "role ada = ''STAFF''" and ra: "role root = ''ADMIN''"
    by (simp_all add: ada_def root_def)
  from role_gated_navigation_and_dashboard [OF s, of "''/dashboard''" False]
    role_gated_navigation_and_dashboard [OF a, of "''/dashboard''" False]
  show ?thesis
    by (simp add: rs ra)
qed

text \<open>
  Claim C9. The admin dashboard is the default branch: it is rendered when there is no user
  and when the user's role is any value other than STAFF, ADMIN or not; the staff variant
  is rendered exactly for a user whose role is STAFF.
\<close>

theorem Dashboard_admin_is_default:
  "(user ctx = None \<longrightarrow> Dashboard ctx = AdminDashboardEl)
   \<and> (\<forall>u. user ctx = Some u \<and> role u \<noteq> ''STAFF'' \<longrightarrow> Dashboard ctx = AdminDashboardEl)
   \<and> (\<forall>u. user ctx = Some u \<and> role u = ''STAFF'' \<longrightarrow> Dashboard ctx = StaffDashboardEl)
   \<and> (Dashboard ctx = StaffDashboardEl) = (\<exists>u. user ctx = Some u \<and> role u = ''STAFF'')"
  by (auto simp: Dashboard_def role_is_def split: option.splits)

theorem Dashboard_admin_is_default_witness:
  "Dashboard guest_ctx = AdminDashboardEl
   \<and> Dashboard \<lparr>user = Some manager, isAuthenticated = True\<rparr> = AdminDashboardEl
   \<and> Dashboard admin_ctx = AdminDashboardEl
   \<and> Dashboard staff_ctx = StaffDashboardEl"
proof -
  have g: "user guest_ctx = None" and s: "user staff_ctx = Some ada \<and> role ada = ''STAFF''"
    and a: "user admin_ctx = Some root \<and> role root \<noteq> ''STAFF''"
    and m: "user \<lparr>user = Some manager, isAuthenticated = True\<rparr> = Some manager
            \<and> role manager \<noteq> ''STAFF''"
    by (simp_all add: guest_ctx_def staff_ctx_def admin_ctx_def ada_def root_def manager_def)
  from Dashboard_admin_is_default [of guest_ctx] g have 1: "Dashboard guest_ctx = AdminDashboardEl"
    by blast
  from Dashboard_admin_is_default [of "\<lparr>user = Some manager, isAuthenticated = True\<rparr>"] m
  have 2: "Dashboard \<lparr>user = Some manager, isAuthenticated = True\<rparr> = AdminDashboardEl"
    by blast
  from Dashboard_admin_is_default [of admin_ctx] a have 3: "Dashboard admin_ctx = AdminDashboardEl"
    by blast
  from Dashboard_admin_is_default [of staff_ctx] s have 4: "Dashboard staff_ctx = StaffDashboardEl"
    by blast
  from 1 2 3 4 show ?thesis by simp
qed

text \<open>
  Claim C10. The role decides which links the sidebar shows, not which routes exist. The
  account-management route is a child of \<^verbatim>\<open>/dashboard\<close> like the others, behind the
  guard that reads \<^verbatim>\<open>isAuthenticated\<close> only: for every authenticated user, so for one of
  role STAFF too, the path \<^verbatim>\<open>/dashboard/account-management\<close> renders the layout with
  the account-management page in its outlet, while the sidebar of a STAFF user has no link
  to it.
\<close>

theorem account_management_route_not_role_gated:
  assumes "isAuthenticated ctx"
  shows "AppRoutes ctx ''/dashboard/account-management''
           = Some (Fragment [DashboardLayoutEl (Some AccountManagementEl)])
       \<and> (\<forall>u. user ctx = Some u \<and> role u = ''STAFF'' \<longrightarrow>
             ''/dashboard/account-management'' \<notin> set (map to (links (Sidebar ctx pathname isOpen))))
       \<and> (Some ''account-management'', AccountManagementEl) \<in> set dashboard_routes"
proof -
  have route: "AppRoutes ctx ''/dashboard/account-management''
      = Some (ProtectedRoute ctx [DashboardLayoutEl (Some AccountManagementEl)])"
    by (simp add: AppRoutes_def dashboard_routes_def)
  have guard: "ProtectedRoute ctx [DashboardLayoutEl (Some AccountManagementEl)]
      = Fragment [DashboardLayoutEl (Some AccountManagementEl)]"
    using assms by (simp add: ProtectedRoute_def)
  have nav: "''/dashboard/account-management'' \<notin> set (map to (links (Sidebar ctx pathname isOpen)))"
    if "user ctx = Some u \<and> role u = ''STAFF''" for u
    using that by (simp add: Sidebar_def role_is_def navItems_def)
  have registered: "(Some ''account-management'', AccountManagementEl) \<in> set dashboard_routes"
    by (simp add: dashboard_routes_def)
  from route guard nav registered show ?thesis
    by auto
qed

theorem account_management_route_not_role_gated_witness:
  "AppRoutes staff_ctx ''/dashboard/account-management''
     = Some (Fragment [DashboardLayoutEl (Some AccountManagementEl)])
   \<and> ''/dashboard/account-management''
       \<notin> set (map to (links (Sidebar staff_ctx ''/dashboard/account-management'' False)))"
proof -
  have a: "isAuthenticated staff_ctx"
    by (simp add: staff_ctx_def)
  have s: "user staff_ctx = Some ada \<and> role ada = ''STAFF''"
    by (simp add: staff_ctx_def ada_def)
  from account_management_route_not_role_gated [OF a, of "''/dashboard/account-management''" False] s
  show ?thesis by blast
qed

end
